theory Spec2Isabelle
  imports Complex_Main
begin

section \<open>Python floats\<close>

text \<open>
  The pen width and the rotation are Python floats. A float is a finite number, an
  infinity or NaN; the finite ones are modelled by the reals, without rounding. The
  comparisons are Python's: every ordered comparison with NaN is false, and \<open>!=\<close> with
  NaN is true.
\<close>

datatype pyfloat = Finite real | PosInf | NegInf | NaN

fun float_lt :: "pyfloat \<Rightarrow> pyfloat \<Rightarrow> bool" where
  "float_lt (Finite a) (Finite b) = (a < b)"
| "float_lt (Finite a) PosInf = True"
| "float_lt NegInf (Finite b) = True"
| "float_lt NegInf PosInf = True"
| "float_lt _ _ = False"

fun float_eq :: "pyfloat \<Rightarrow> pyfloat \<Rightarrow> bool" where
  "float_eq (Finite a) (Finite b) = (a = b)"
| "float_eq PosInf PosInf = True"
| "float_eq NegInf NegInf = True"
| "float_eq _ _ = False"

definition float_ne :: "pyfloat \<Rightarrow> pyfloat \<Rightarrow> bool" where
  "float_ne a b = (\<not> float_eq a b)"

definition float_le :: "pyfloat \<Rightarrow> pyfloat \<Rightarrow> bool" where
  "float_le a b = (float_lt a b \<or> float_eq a b)"

definition float_of_int :: "int \<Rightarrow> pyfloat" where
  "float_of_int i = Finite (of_int i)"

text \<open>\<open>a / 2.0\<close> and \<open>a - b\<close>.\<close>

fun float_half :: "pyfloat \<Rightarrow> pyfloat" where
  "float_half (Finite a) = Finite (a / 2)"
| "float_half PosInf = PosInf"
| "float_half NegInf = NegInf"
| "float_half NaN = NaN"

fun float_sub :: "pyfloat \<Rightarrow> pyfloat \<Rightarrow> pyfloat" where
  "float_sub (Finite a) (Finite b) = Finite (a - b)"
| "float_sub (Finite a) PosInf = NegInf"
| "float_sub (Finite a) NegInf = PosInf"
| "float_sub PosInf (Finite b) = PosInf"
| "float_sub PosInf NegInf = PosInf"
| "float_sub NegInf (Finite b) = NegInf"
| "float_sub NegInf PosInf = NegInf"
| "float_sub _ _ = NaN"

text \<open>\<open>float.is_integer()\<close>: whether the float is a whole number.\<close>

fun float_is_integer :: "pyfloat \<Rightarrow> bool" where
  "float_is_integer (Finite a) = (a \<in> \<int>)"
| "float_is_integer _ = False"

section \<open>Toolkit values used by the widgets\<close>

text \<open>
  The widgets hold values of the GUI toolkit: colours, brushes, pens, enumerations. They
  are modelled by their contents.
\<close>

datatype QColor = QColor int int int

datatype BrushStyle =
    NoBrush | SolidPattern
  | Dense1Pattern | Dense2Pattern | Dense3Pattern | Dense4Pattern
  | Dense5Pattern | Dense6Pattern | Dense7Pattern
  | HorPattern | VerPattern | CrossPattern
  | BDiagPattern | FDiagPattern | DiagCrossPattern
  | LinearGradientPattern | RadialGradientPattern | ConicalGradientPattern
  | TexturePattern

datatype PenStyle =
    NoPen | SolidLine | DashLine | DotLine | DashDotLine | DashDotDotLine
  | CustomDashLine

datatype QBrush = QBrush QColor BrushStyle

record QPen =
  style :: PenStyle
  cosmetic :: bool
  widthF :: pyfloat
  color :: QColor

text \<open>
  \<open>QPen(style)\<close>: a black pen of the given style. Its width of 1 is replaced by the
  constructor of the icon before the pen is used.
\<close>

definition QPen_new :: "PenStyle \<Rightarrow> QPen" where
  "QPen_new st = \<lparr>style = st, cosmetic = False, widthF = Finite 1, color = QColor 0 0 0\<rparr>"

definition setCosmetic :: "bool \<Rightarrow> QPen \<Rightarrow> QPen" where
  "setCosmetic b p = p\<lparr>cosmetic := b\<rparr>"

definition setWidthF :: "pyfloat \<Rightarrow> QPen \<Rightarrow> QPen" where
  "setWidthF w p = p\<lparr>widthF := w\<rparr>"

text \<open>\<open>QPen.setWidth\<close> takes an integer: the pen then carries that integer as its width.\<close>

definition setWidth :: "int \<Rightarrow> QPen \<Rightarrow> QPen" where
  "setWidth w p = p\<lparr>widthF := float_of_int w\<rparr>"

definition setColor :: "QColor \<Rightarrow> QPen \<Rightarrow> QPen" where
  "setColor c p = p\<lparr>color := c\<rparr>"

definition setStyle :: "PenStyle \<Rightarrow> QPen \<Rightarrow> QPen" where
  "setStyle st p = p\<lparr>style := st\<rparr>"

record QRect =
  rect_x :: int
  rect_y :: int
  rect_width :: int
  rect_height :: int

record QPaintEvent =
  rect :: QRect

section \<open>The painter, as the list of the calls made on it\<close>

datatype PrimitiveElement = PE_Widget

datatype RenderHint = Antialiasing

datatype painter_call =
    SetClipping bool
  | DrawPrimitive PrimitiveElement
  | SetRenderHint RenderHint
  | Translate pyfloat pyfloat
  | Rotate pyfloat
  | Scale pyfloat pyfloat
  | SetBrush QBrush
  | SetPen QPen
  | Shape string

type_synonym QPainter = "painter_call list"

definition QPainter_new :: QPainter where
  "QPainter_new = []"

definition call :: "painter_call \<Rightarrow> QPainter \<Rightarrow> QPainter" where
  "call c painter = painter @ [c]"

text \<open>The calls of a painter that change its coordinate system, in the order made.\<close>

fun is_transform :: "painter_call \<Rightarrow> bool" where
  "is_transform (Translate dx dy) = True"
| "is_transform (Rotate a) = True"
| "is_transform (Scale sx sy) = True"
| "is_transform _ = False"

definition transform_calls :: "QPainter \<Rightarrow> painter_call list" where
  "transform_calls painter = filter is_transform painter"

section \<open>icons/base.py: BaseSymbolIcon\<close>

text \<open>
  The fields of the widget that \<open>__init__\<close> assigns, the object name it sets, and the
  number of repaint requests (\<open>update()\<close>) made so far.
\<close>

record BaseSymbolIcon =
  self_brush :: QBrush
  self_original_brush :: "QBrush option"
  self_rotation :: pyfloat
  self_pen_style :: PenStyle
  self_pen :: QPen
  self_pen_width :: pyfloat
  self_pen_color :: QColor
  self_original_pen_style :: PenStyle
  self_original_pen_color :: QColor
  objectName :: string
  update_calls :: nat

definition update :: "BaseSymbolIcon \<Rightarrow> BaseSymbolIcon" where
  "update s = s\<lparr>update_calls := Suc (update_calls s)\<rparr>"

definition init :: BaseSymbolIcon where
  "init =
    (let brush0 = QBrush (QColor 0 255 0) SolidPattern;
         rotation0 = float_of_int 0;
         pen_style0 = SolidLine;
         pen = QPen_new pen_style0;
         pen = setCosmetic True pen;
         pen_width0 = Finite 1;
         pen_color0 = QColor 0 0 0;
         pen = setWidthF pen_width0 pen;
         pen = setColor pen_color0 pen
     in \<lparr>self_brush = brush0,
         self_original_brush = None,
         self_rotation = rotation0,
         self_pen_style = pen_style0,
         self_pen = pen,
         self_pen_width = pen_width0,
         self_pen_color = pen_color0,
         self_original_pen_style = pen_style0,
         self_original_pen_color = pen_color0,
         objectName = ''icon'',
         update_calls = 0\<rparr>)"

definition minimumSizeHint :: "BaseSymbolIcon \<Rightarrow> int \<times> int" where
  "minimumSizeHint s = (32, 32)"

text \<open>
  \<open>draw_icon\<close> of the base class does nothing; the icon classes override it, so
  \<open>paintEvent\<close> takes the method it dispatches to as an argument.
\<close>

definition draw_icon :: "BaseSymbolIcon \<Rightarrow> QPainter \<Rightarrow> QPainter" where
  "draw_icon s painter = painter"

definition paintEvent ::
  "(BaseSymbolIcon \<Rightarrow> QPainter \<Rightarrow> QPainter) \<Rightarrow> QPaintEvent \<Rightarrow> BaseSymbolIcon
     \<Rightarrow> BaseSymbolIcon \<times> QPainter" where
  "paintEvent draw event s =
    (let painter = QPainter_new;
         painter = call (SetClipping True) painter;
         painter = call (DrawPrimitive PE_Widget) painter;
         painter = call (SetRenderHint Antialiasing) painter;
         x = rect_x (rect event);
         y = rect_y (rect event);
         w = rect_width (rect event);
         h = rect_height (rect event);
         painter = call (Translate (float_half (float_of_int w))
                                   (float_half (float_of_int h))) painter;
         painter = call (Rotate (self_rotation s)) painter;
         painter = call (Translate (float_half (float_of_int (- w)))
                                   (float_half (float_of_int (- h)))) painter;
         painter = call (Translate (float_half (self_pen_width s))
                                   (float_half (self_pen_width s))) painter;
         painter = call (Scale (float_sub (float_of_int w) (self_pen_width s))
                               (float_sub (float_of_int h) (self_pen_width s))) painter;
         painter = call (Translate (float_of_int x) (float_of_int y)) painter;
         painter = call (SetBrush (self_brush s)) painter;
         painter = call (SetPen (self_pen s)) painter;
         painter = draw s painter
     in (s, painter))"

subsection \<open>The properties\<close>

definition brush :: "BaseSymbolIcon \<Rightarrow> QBrush" where
  "brush s = self_brush s"

definition brush_setter :: "QBrush \<Rightarrow> BaseSymbolIcon \<Rightarrow> BaseSymbolIcon" where
  "brush_setter new_brush s =
    (if new_brush \<noteq> self_brush s
     then update (s\<lparr>self_brush := new_brush\<rparr>)
     else s)"

definition penStyle :: "BaseSymbolIcon \<Rightarrow> PenStyle" where
  "penStyle s = self_pen_style s"

definition penStyle_setter :: "PenStyle \<Rightarrow> BaseSymbolIcon \<Rightarrow> BaseSymbolIcon" where
  "penStyle_setter new_style s =
    (if new_style \<noteq> self_pen_style s
     then (let s = s\<lparr>self_pen_style := new_style\<rparr>;
               s = s\<lparr>self_pen := setStyle new_style (self_pen s)\<rparr>
           in update s)
     else s)"

definition penColor :: "BaseSymbolIcon \<Rightarrow> QColor" where
  "penColor s = self_pen_color s"

definition penColor_setter :: "QColor \<Rightarrow> BaseSymbolIcon \<Rightarrow> BaseSymbolIcon" where
  "penColor_setter new_color s =
    (if new_color \<noteq> self_pen_color s
     then (let s = s\<lparr>self_pen_color := new_color\<rparr>;
               s = s\<lparr>self_pen := setColor new_color (self_pen s)\<rparr>
           in update s)
     else s)"

definition penWidth :: "BaseSymbolIcon \<Rightarrow> pyfloat" where
  "penWidth s = self_pen_width s"

text \<open>
  The setter stores the new width and then hands it to \<open>QPen.setWidth\<close>, whose
  parameter is an integer. The conversion of the float is made by the toolkit binding,
  outside this repository: it is the argument \<open>to_int\<close>, any function from floats to
  integers. A NaN is not below zero and differs from every width, so it is stored.
\<close>

definition penWidth_setter ::
  "(pyfloat \<Rightarrow> int) \<Rightarrow> pyfloat \<Rightarrow> BaseSymbolIcon \<Rightarrow> BaseSymbolIcon" where
  "penWidth_setter to_int new_width s =
    (if float_lt new_width (float_of_int 0) then s
     else if float_ne new_width (self_pen_width s)
     then (let s = s\<lparr>self_pen_width := new_width\<rparr>;
               s = s\<lparr>self_pen := setWidth (to_int (self_pen_width s)) (self_pen s)\<rparr>
           in update s)
     else s)"

definition rotation :: "BaseSymbolIcon \<Rightarrow> pyfloat" where
  "rotation s = self_rotation s"

definition rotation_setter :: "pyfloat \<Rightarrow> BaseSymbolIcon \<Rightarrow> BaseSymbolIcon" where
  "rotation_setter angle s = update (s\<lparr>self_rotation := angle\<rparr>)"

subsection \<open>Sequences of operations on an icon\<close>

text \<open>
  The operations a client can apply to a constructed icon: the five property setters
  and a paint event (dispatching to the \<open>draw_icon\<close> of the base class).
\<close>

datatype icon_op =
    Set_brush QBrush
  | Set_penStyle PenStyle
  | Set_penColor QColor
  | Set_penWidth pyfloat
  | Set_rotation pyfloat
  | Paint QPaintEvent

fun icon_step :: "(pyfloat \<Rightarrow> int) \<Rightarrow> icon_op \<Rightarrow> BaseSymbolIcon \<Rightarrow> BaseSymbolIcon" where
  "icon_step to_int (Set_brush b) s = brush_setter b s"
| "icon_step to_int (Set_penStyle st) s = penStyle_setter st s"
| "icon_step to_int (Set_penColor c) s = penColor_setter c s"
| "icon_step to_int (Set_penWidth w) s = penWidth_setter to_int w s"
| "icon_step to_int (Set_rotation a) s = rotation_setter a s"
| "icon_step to_int (Paint event) s = fst (paintEvent draw_icon event s)"

fun icon_run ::
  "(pyfloat \<Rightarrow> int) \<Rightarrow> icon_op list \<Rightarrow> BaseSymbolIcon \<Rightarrow> BaseSymbolIcon" where
  "icon_run to_int [] s = s"
| "icon_run to_int (op # ops) s = icon_run to_int ops (icon_step to_int op s)"

text \<open>An operation that does not assign NaN to the pen width.\<close>

fun assigns_no_nan :: "icon_op \<Rightarrow> bool" where
  "assigns_no_nan (Set_penWidth w) = (w \<noteq> NaN)"
| "assigns_no_nan _ = True"

subsection \<open>The transform about the centre of the rectangle, and example values\<close>

text \<open>
  The centre of a rectangle, and the transform with a translation to the centre of the
  event's rectangle and back in place of the first and third call of \<open>paintEvent\<close>.
\<close>

definition rect_center :: "QRect \<Rightarrow> pyfloat \<times> pyfloat" where
  "rect_center r =
    (Finite (of_int (rect_x r) + of_int (rect_width r) / 2),
     Finite (of_int (rect_y r) + of_int (rect_height r) / 2))"

definition centred_transform :: "QPaintEvent \<Rightarrow> BaseSymbolIcon \<Rightarrow> painter_call list" where
  "centred_transform event s =
    [Translate (fst (rect_center (rect event))) (snd (rect_center (rect event))),
     Rotate (rotation s),
     Translate (float_sub (Finite 0) (fst (rect_center (rect event))))
               (float_sub (Finite 0) (snd (rect_center (rect event)))),
     Translate (float_half (penWidth s)) (float_half (penWidth s)),
     Scale (float_sub (float_of_int (rect_width (rect event))) (penWidth s))
           (float_sub (float_of_int (rect_height (rect event))) (penWidth s)),
     Translate (float_of_int (rect_x (rect event))) (float_of_int (rect_y (rect event)))]"

definition example_event :: QPaintEvent where
  "example_event = \<lparr>rect = \<lparr>rect_x = 100, rect_y = 100, rect_width = 32, rect_height = 20\<rparr>\<rparr>"

text \<open>A conversion for the examples: the integer part of a finite float, 0 otherwise.\<close>

fun example_to_int :: "pyfloat \<Rightarrow> int" where
  "example_to_int (Finite a) = \<lfloor>a\<rfloor>"
| "example_to_int _ = 0"

section \<open>symbols/valves.py: PneumaticValve and FastShutter\<close>

datatype Orientation = Horizontal | Vertical

text \<open>
  Modelled from the spec: the declaration of \<open>ContentLocation\<close> (symbols/base.py) is not
  among the sources. The spec calls it an enumerated placement setting; valves.py names
  its members \<open>Top\<close> and \<open>Bottom\<close>, and every other member is an \<open>OtherLocation\<close>.
\<close>

datatype ContentLocation = Top | Bottom | OtherLocation nat

record PyDMEnumButton =
  orientation :: Orientation
  minimumSize :: "int \<times> int"
  channel :: "string option"

definition setMinimumSize :: "int \<Rightarrow> int \<Rightarrow> PyDMEnumButton \<Rightarrow> PyDMEnumButton" where
  "setMinimumSize minw minh b = b\<lparr>minimumSize := (minw, minh)\<rparr>"

text \<open>
  The fields of a symbol widget that valves.py reads or writes. The fields of the base
  class and of the mixins that it does not touch are the record's extension, so the
  inherited methods, which are arguments below, range over any widget state.
  \<open>_interlocked\<close> holds the channel's value, an integer by the docstring of
  \<open>interlock_value_changed\<close>; \<open>_channels_prefix\<close> is \<open>None\<close> or a string.
\<close>

record symbol =
  self_interlocked :: int
  self_controls_location :: ContentLocation
  self_channels_prefix :: "string option"
  controls_frame_enabled :: bool
  open_close_btn :: PyDMEnumButton

text \<open>Python's truth value of an integer, and of a value that is \<open>None\<close> or a string.\<close>

definition truth_int :: "int \<Rightarrow> bool" where
  "truth_int v = (v \<noteq> 0)"

definition truth_str :: "string option \<Rightarrow> bool" where
  "truth_str p = (case p of None \<Rightarrow> False | Some t \<Rightarrow> t \<noteq> [])"

text \<open>\<open>"{}{}".format(a, b)\<close> for \<open>a\<close> that is \<open>None\<close> or a string and a string \<open>b\<close>.\<close>

definition format2 :: "string option \<Rightarrow> string \<Rightarrow> string" where
  "format2 a b = (case a of None \<Rightarrow> ''None'' | Some t \<Rightarrow> t) @ b"

text \<open>The keyword arguments that \<open>__init__\<close> passes to the constructor it inherits.\<close>

record suffix_kwargs =
  interlock_suffix :: string
  error_suffix :: string
  open_suffix :: string
  close_suffix :: string

definition controlsLocation :: "'a symbol_scheme \<Rightarrow> ContentLocation" where
  "controlsLocation s = self_controls_location s"

subsection \<open>PneumaticValve\<close>

definition PneumaticValve_interlock_suffix :: string where
  "PneumaticValve_interlock_suffix = '':OPN_OK''"

definition PneumaticValve_error_suffix :: string where
  "PneumaticValve_error_suffix = '':STATE''"

definition PneumaticValve_open_state_suffix :: string where
  "PneumaticValve_open_state_suffix = '':OPN_DI''"

definition PneumaticValve_close_state_suffix :: string where
  "PneumaticValve_close_state_suffix = '':CLS_DI''"

definition PneumaticValve_init_kwargs :: suffix_kwargs where
  "PneumaticValve_init_kwargs =
    \<lparr>interlock_suffix = PneumaticValve_interlock_suffix,
     error_suffix = PneumaticValve_error_suffix,
     open_suffix = PneumaticValve_open_state_suffix,
     close_suffix = PneumaticValve_close_state_suffix\<rparr>"

definition PneumaticValve_assemble_layout ::
  "('a symbol_scheme \<Rightarrow> 'a symbol_scheme) \<Rightarrow> 'a symbol_scheme \<Rightarrow> 'a symbol_scheme" where
  "PneumaticValve_assemble_layout super_assemble_layout s =
    (let s = super_assemble_layout s
     in if controlsLocation s \<in> set [Top, Bottom]
        then (let s = s\<lparr>open_close_btn := (open_close_btn s)\<lparr>orientation := Horizontal\<rparr>\<rparr>
              in s\<lparr>open_close_btn := setMinimumSize 100 40 (open_close_btn s)\<rparr>)
        else (let s = s\<lparr>open_close_btn := (open_close_btn s)\<lparr>orientation := Vertical\<rparr>\<rparr>
              in s\<lparr>open_close_btn := setMinimumSize 100 80 (open_close_btn s)\<rparr>))"

definition PneumaticValve_controlsLocation_setter ::
  "('a symbol_scheme \<Rightarrow> 'a symbol_scheme) \<Rightarrow> ContentLocation \<Rightarrow> 'a symbol_scheme
     \<Rightarrow> 'a symbol_scheme" where
  "PneumaticValve_controlsLocation_setter super_assemble_layout location s =
    (if location \<noteq> self_controls_location s
     then PneumaticValve_assemble_layout super_assemble_layout
            (s\<lparr>self_controls_location := location\<rparr>)
     else s)"

definition PneumaticValve_create_channels ::
  "('a symbol_scheme \<Rightarrow> 'a symbol_scheme) \<Rightarrow> 'a symbol_scheme \<Rightarrow> 'a symbol_scheme" where
  "PneumaticValve_create_channels super_create_channels s =
    (let s = super_create_channels s
     in if truth_str (self_channels_prefix s)
        then s\<lparr>open_close_btn := (open_close_btn s)
               \<lparr>channel := Some (format2 (self_channels_prefix s) '':OPN_SW'')\<rparr>\<rparr>
        else s)"

definition PneumaticValve_destroy_channels ::
  "('a symbol_scheme \<Rightarrow> 'a symbol_scheme) \<Rightarrow> 'a symbol_scheme \<Rightarrow> 'a symbol_scheme" where
  "PneumaticValve_destroy_channels super_destroy_channels s =
    (let s = super_destroy_channels s
     in s\<lparr>open_close_btn := (open_close_btn s)\<lparr>channel := None\<rparr>\<rparr>)"

definition PneumaticValve_interlock_value_changed ::
  "(int \<Rightarrow> 'a symbol_scheme \<Rightarrow> 'a symbol_scheme) \<Rightarrow> int \<Rightarrow> 'a symbol_scheme
     \<Rightarrow> 'a symbol_scheme" where
  "PneumaticValve_interlock_value_changed mixin_interlock_value_changed v s =
    (let s = mixin_interlock_value_changed v s
     in s\<lparr>controls_frame_enabled := \<not> truth_int (self_interlocked s)\<rparr>)"

subsection \<open>FastShutter\<close>

definition FastShutter_interlock_suffix :: string where
  "FastShutter_interlock_suffix = '':OPN_OK''"

definition FastShutter_error_suffix :: string where
  "FastShutter_error_suffix = '':ERROR''"

definition FastShutter_open_state_suffix :: string where
  "FastShutter_open_state_suffix = '':OPN_DI''"

definition FastShutter_close_state_suffix :: string where
  "FastShutter_close_state_suffix = '':CLS_DI''"

definition FastShutter_init_kwargs :: suffix_kwargs where
  "FastShutter_init_kwargs =
    \<lparr>interlock_suffix = FastShutter_interlock_suffix,
     error_suffix = FastShutter_error_suffix,
     open_suffix = FastShutter_open_state_suffix,
     close_suffix = FastShutter_close_state_suffix\<rparr>"

definition FastShutter_assemble_layout ::
  "('a symbol_scheme \<Rightarrow> 'a symbol_scheme) \<Rightarrow> 'a symbol_scheme \<Rightarrow> 'a symbol_scheme" where
  "FastShutter_assemble_layout super_assemble_layout s =
    (let s = super_assemble_layout s
     in if controlsLocation s \<in> set [Top, Bottom]
        then (let s = s\<lparr>open_close_btn := (open_close_btn s)\<lparr>orientation := Horizontal\<rparr>\<rparr>
              in s\<lparr>open_close_btn := setMinimumSize 100 40 (open_close_btn s)\<rparr>)
        else (let s = s\<lparr>open_close_btn := (open_close_btn s)\<lparr>orientation := Vertical\<rparr>\<rparr>
              in s\<lparr>open_close_btn := setMinimumSize 100 80 (open_close_btn s)\<rparr>))"

definition FastShutter_controlsLocation_setter ::
  "('a symbol_scheme \<Rightarrow> 'a symbol_scheme) \<Rightarrow> ContentLocation \<Rightarrow> 'a symbol_scheme
     \<Rightarrow> 'a symbol_scheme" where
  "FastShutter_controlsLocation_setter super_assemble_layout location s =
    (if location \<noteq> self_controls_location s
     then FastShutter_assemble_layout super_assemble_layout
            (s\<lparr>self_controls_location := location\<rparr>)
     else s)"

definition FastShutter_create_channels ::
  "('a symbol_scheme \<Rightarrow> 'a symbol_scheme) \<Rightarrow> 'a symbol_scheme \<Rightarrow> 'a symbol_scheme" where
  "FastShutter_create_channels super_create_channels s =
    (let s = super_create_channels s
     in if truth_str (self_channels_prefix s)
        then s\<lparr>open_close_btn := (open_close_btn s)
               \<lparr>channel := Some (format2 (self_channels_prefix s) '':OPN_SW'')\<rparr>\<rparr>
        else s)"

definition FastShutter_destroy_channels ::
  "('a symbol_scheme \<Rightarrow> 'a symbol_scheme) \<Rightarrow> 'a symbol_scheme \<Rightarrow> 'a symbol_scheme" where
  "FastShutter_destroy_channels super_destroy_channels s =
    (let s = super_destroy_channels s
     in s\<lparr>open_close_btn := (open_close_btn s)\<lparr>channel := None\<rparr>\<rparr>)"

definition FastShutter_interlock_value_changed ::
  "(int \<Rightarrow> 'a symbol_scheme \<Rightarrow> 'a symbol_scheme) \<Rightarrow> int \<Rightarrow> 'a symbol_scheme
     \<Rightarrow> 'a symbol_scheme" where
  "FastShutter_interlock_value_changed mixin_interlock_value_changed v s =
    (let s = mixin_interlock_value_changed v s
     in s\<lparr>controls_frame_enabled := \<not> truth_int (self_interlocked s)\<rparr>)"

subsection \<open>The suffixes of the specification, and example values\<close>

text \<open>The suffix conventions as the specification enumerates them.\<close>

definition spec_channel_suffixes :: "string list" where
  "spec_channel_suffixes = ['':OPN_OK'', '':STATE'', '':OPN_DI'', '':CLS_DI'', '':OPN_SW'']"

text \<open>A symbol with the prefix \<open>VGC:1\<close>, and an interlock mixin that stores the value.\<close>

definition example_symbol :: symbol where
  "example_symbol =
    \<lparr>self_interlocked = 0,
     self_controls_location = OtherLocation 0,
     self_channels_prefix = Some ''VGC:1'',
     controls_frame_enabled = True,
     open_close_btn = \<lparr>orientation = Vertical, minimumSize = (0, 0), channel = None\<rparr>\<rparr>"

definition store_interlock :: "int \<Rightarrow> 'a symbol_scheme \<Rightarrow> 'a symbol_scheme" where
  "store_interlock v s = s\<lparr>self_interlocked := v\<rparr>"

section \<open>Facts about the icon\<close>

lemma float_eq_same: "float_eq a b \<Longrightarrow> a = b"
  by (cases a; cases b) simp_all

lemma float_le_zero_not_lt: "float_le (Finite 0) w \<Longrightarrow> \<not> float_lt w (Finite 0)"
  by (cases w) (auto simp: float_le_def)

lemma float_not_lt_zero_le:
  "w \<noteq> NaN \<Longrightarrow> \<not> float_lt w (Finite 0) \<Longrightarrow> float_le (Finite 0) w"
  by (cases w) (auto simp: float_le_def)

lemma init_fields:
  "self_pen_width init = Finite 1" "widthF (self_pen init) = Finite 1"
  "update_calls init = 0"
  "self_brush init = QBrush (QColor 0 255 0) SolidPattern" "self_rotation init = Finite 0"
  "self_pen_style init = SolidLine" "self_pen_color init = QColor 0 0 0"
  "self_pen init
     = \<lparr>style = SolidLine, cosmetic = True, widthF = Finite 1, color = QColor 0 0 0\<rparr>"
  by (simp_all add: init_def QPen_new_def setCosmetic_def setWidthF_def setColor_def
        float_of_int_def Let_def)

lemma penWidth_setter_stored:
  "self_pen_width (penWidth_setter to_int w s) = w
   \<or> self_pen_width (penWidth_setter to_int w s) = self_pen_width s"
  by (simp add: penWidth_setter_def update_def Let_def)

lemma penWidth_setter_not_negative:
  "\<not> float_lt (self_pen_width s) (Finite 0)
   \<Longrightarrow> \<not> float_lt (self_pen_width (penWidth_setter to_int w s)) (Finite 0)"
  by (simp add: penWidth_setter_def update_def float_of_int_def Let_def)

lemma penWidth_setter_nonneg:
  "float_le (Finite 0) (self_pen_width s) \<Longrightarrow> w \<noteq> NaN
   \<Longrightarrow> float_le (Finite 0) (self_pen_width (penWidth_setter to_int w s))"
  by (simp add: penWidth_setter_def update_def float_of_int_def Let_def
        float_not_lt_zero_le)

lemma step_pen_width_not_negative:
  "\<not> float_lt (self_pen_width s) (Finite 0)
   \<Longrightarrow> \<not> float_lt (self_pen_width (icon_step to_int op s)) (Finite 0)"
  by (cases op)
     (simp_all add: brush_setter_def penStyle_setter_def penColor_setter_def
        penWidth_setter_not_negative rotation_setter_def paintEvent_def update_def Let_def)

lemma run_pen_width_not_negative:
  "\<not> float_lt (self_pen_width s) (Finite 0)
   \<Longrightarrow> \<not> float_lt (self_pen_width (icon_run to_int ops s)) (Finite 0)"
  by (induction ops arbitrary: s) (simp_all add: step_pen_width_not_negative)

lemma step_pen_width_nonneg:
  "float_le (Finite 0) (self_pen_width s) \<Longrightarrow> assigns_no_nan op
   \<Longrightarrow> float_le (Finite 0) (self_pen_width (icon_step to_int op s))"
  by (cases op)
     (simp_all add: brush_setter_def penStyle_setter_def penColor_setter_def
        penWidth_setter_nonneg rotation_setter_def paintEvent_def update_def Let_def)

lemma run_pen_width_nonneg:
  "float_le (Finite 0) (self_pen_width s) \<Longrightarrow> list_all assigns_no_nan ops
   \<Longrightarrow> float_le (Finite 0) (self_pen_width (icon_run to_int ops s))"
  by (induction ops arbitrary: s) (simp_all add: step_pen_width_nonneg)

lemma step_pen_integral:
  "float_is_integer (widthF (self_pen s))
   \<Longrightarrow> float_is_integer (widthF (self_pen (icon_step to_int op s)))"
  by (cases op)
     (simp_all add: brush_setter_def penStyle_setter_def penColor_setter_def
        penWidth_setter_def rotation_setter_def paintEvent_def update_def Let_def
        setStyle_def setColor_def setWidth_def float_of_int_def)

lemma run_pen_integral:
  "float_is_integer (widthF (self_pen s))
   \<Longrightarrow> float_is_integer (widthF (self_pen (icon_run to_int ops s)))"
  by (induction ops arbitrary: s) (simp_all add: step_pen_integral)

lemma penWidth_setter_pen_integral:
  "float_is_integer (widthF (self_pen s))
   \<Longrightarrow> float_is_integer (widthF (self_pen (penWidth_setter to_int w s)))"
  using step_pen_integral [of s to_int "Set_penWidth w"] by simp

lemma five_halves_not_integer: "\<not> float_is_integer (Finite (5 / 2))"
proof -
  have "(5 / 2 :: real) \<notin> \<int>"
  proof
    assume "(5 / 2 :: real) \<in> \<int>"
    then obtain k :: int where "5 / 2 = (of_int k :: real)" by (auto elim: Ints_cases)
    then have "(5::real) = of_int (2 * k)" by simp
    then have "(5::int) = 2 * k" by linarith
    then show False by presburger
  qed
  then show ?thesis by simp
qed

subsection \<open>Rejected pen widths\<close>

text \<open>
  C2. A negative value assigned to \<open>penWidth\<close> is ignored: the setter returns the widget
  as it was (stored width, pen, every other field, and the count of repaint requests), and
  the getter still gives the previous width.
\<close>

theorem penWidth_negative_rejected:
  "float_lt w (Finite 0) \<Longrightarrow>
     penWidth_setter to_int w s = s
     \<and> update_calls (penWidth_setter to_int w s) = update_calls s
     \<and> self_pen (penWidth_setter to_int w s) = self_pen s
     \<and> penWidth (penWidth_setter to_int w s) = penWidth s"
  by (simp add: penWidth_setter_def float_of_int_def)

theorem penWidth_negative_rejected_witness:
  "float_lt (Finite (- 2)) (Finite 0)
     \<and> penWidth_setter example_to_int (Finite (- 2)) init = init
     \<and> update_calls (penWidth_setter example_to_int (Finite (- 2)) init) = 0
     \<and> penWidth (penWidth_setter example_to_int (Finite (- 2)) init) = Finite 1"
proof -
  have neg: "float_lt (Finite (- 2)) (Finite 0)" by simp
  have start: "update_calls init = 0 \<and> penWidth init = Finite 1"
    by (simp add: init_fields penWidth_def)
  from penWidth_negative_rejected [OF neg, of example_to_int init] start neg
  show ?thesis by simp
qed

subsection \<open>The sign of the pen width\<close>

text \<open>
  C3, as the code has it. The width the constructor stores is non-negative. An
  operation that does not assign NaN to penWidth keeps the stored width non-negative, so
  the width is non-negative after any sequence of such operations on a constructed icon.
  Whatever is assigned, the stored width is never below zero.
\<close>

theorem pen_width_nonneg_without_nan:
  "float_le (Finite 0) (self_pen_width init)
   \<and> (float_le (Finite 0) (self_pen_width s) \<and> assigns_no_nan op \<longrightarrow>
        float_le (Finite 0) (self_pen_width (icon_step to_int op s)))
   \<and> (list_all assigns_no_nan ops \<longrightarrow>
        float_le (Finite 0) (self_pen_width (icon_run to_int ops init)))
   \<and> \<not> float_lt (self_pen_width (icon_run to_int ops init)) (Finite 0)"
proof -
  have start: "float_le (Finite 0) (self_pen_width init)"
    by (simp add: init_fields float_le_def)
  then have low: "\<not> float_lt (self_pen_width init) (Finite 0)"
    by (rule float_le_zero_not_lt)
  from start low show ?thesis
    by (simp add: step_pen_width_nonneg run_pen_width_nonneg run_pen_width_not_negative)
qed

theorem pen_width_nonneg_without_nan_witness:
  "float_le (Finite 0) (self_pen_width init)
   \<and> assigns_no_nan (Set_penWidth (Finite (- 3)))
   \<and> float_le (Finite 0)
        (self_pen_width (icon_step example_to_int (Set_penWidth (Finite (- 3))) init))
   \<and> list_all assigns_no_nan [Set_penWidth (Finite (5 / 2)), Set_penWidth (Finite (- 1))]
   \<and> self_pen_width
        (icon_run example_to_int
           [Set_penWidth (Finite (5 / 2)), Set_penWidth (Finite (- 1))] init)
       = Finite (5 / 2)
   \<and> float_le (Finite 0)
        (self_pen_width
          (icon_run example_to_int
             [Set_penWidth (Finite (5 / 2)), Set_penWidth (Finite (- 1))] init))"
proof -
  have a: "self_pen_width
             (icon_run example_to_int
                [Set_penWidth (Finite (5 / 2)), Set_penWidth (Finite (- 1))] init)
           = Finite (5 / 2)"
    by (simp add: penWidth_setter_def init_fields update_def float_ne_def
          float_of_int_def Let_def)
  from pen_width_nonneg_without_nan
         [of init "Set_penWidth (Finite (- 3))" example_to_int
             "[Set_penWidth (Finite (5 / 2)), Set_penWidth (Finite (- 1))]"] a
  show ?thesis by simp
qed

text \<open>
  C3 as worded, for every operation, fails: NaN is not below zero and differs
  from the stored width, so the setter stores it, and \<open>0 <= NaN\<close> is false. The width is
  stored before the pen is touched, so this does not depend on the conversion.
\<close>

theorem pen_width_nan_counterexample:
  "self_pen_width (icon_step example_to_int (Set_penWidth NaN) init) = NaN
   \<and> \<not> float_le (Finite 0)
         (self_pen_width (icon_step example_to_int (Set_penWidth NaN) init))"
  by (simp add: penWidth_setter_def init_fields update_def float_ne_def float_le_def
        float_of_int_def Let_def)

subsection \<open>The paint event\<close>

text \<open>
  C4, as the code has it. \<open>paintEvent\<close> leaves the widget as it is and hands to
  \<open>draw_icon\<close> a painter on which exactly these calls were made, in this order:
  clipping, the widget primitive and the render hint; then the transform: translate by
  half the width and half the height of the event's rectangle, rotate by the rotation
  property, translate back by the same amounts, translate by half the pen width, scale by
  (width - penWidth, height - penWidth), translate by the rectangle's origin; then the
  brush and the pen of the widget. Whatever \<open>draw_icon\<close> draws comes after them.
\<close>

theorem paintEvent_order:
  "paintEvent draw event s =
    (s, draw s
      ([SetClipping True, DrawPrimitive PE_Widget, SetRenderHint Antialiasing]
       @ [Translate (float_half (float_of_int (rect_width (rect event))))
                    (float_half (float_of_int (rect_height (rect event)))),
          Rotate (rotation s),
          Translate (float_half (float_of_int (- rect_width (rect event))))
                    (float_half (float_of_int (- rect_height (rect event)))),
          Translate (float_half (penWidth s)) (float_half (penWidth s)),
          Scale (float_sub (float_of_int (rect_width (rect event))) (penWidth s))
                (float_sub (float_of_int (rect_height (rect event))) (penWidth s)),
          Translate (float_of_int (rect_x (rect event))) (float_of_int (rect_y (rect event)))]
       @ [SetBrush (brush s), SetPen (self_pen s)]))"
  by (simp add: paintEvent_def QPainter_new_def call_def Let_def
        rotation_def penWidth_def brush_def)

theorem paintEvent_order_witness:
  "snd (paintEvent (\<lambda>s painter. call (Shape ''valve'') painter) example_event init)
     = [SetClipping True, DrawPrimitive PE_Widget, SetRenderHint Antialiasing,
        Translate (Finite 16) (Finite 10), Rotate (Finite 0),
        Translate (Finite (- 16)) (Finite (- 10)),
        Translate (Finite (1 / 2)) (Finite (1 / 2)),
        Scale (Finite 31) (Finite 19), Translate (Finite 100) (Finite 100),
        SetBrush (QBrush (QColor 0 255 0) SolidPattern),
        SetPen \<lparr>style = SolidLine, cosmetic = True, widthF = Finite 1,
                color = QColor 0 0 0\<rparr>,
        Shape ''valve'']"
  using paintEvent_order [of "\<lambda>s painter. call (Shape ''valve'') painter" example_event init]
  by (simp add: call_def rotation_def penWidth_def brush_def init_fields
        example_event_def float_of_int_def)

text \<open>
  C4 as worded, with a translation to the centre of the rectangle, fails when
  the rectangle does not start at the origin: for the rectangle of width 32 and height
  20 at (100, 100), whose centre is (116, 110), the first translation is by (16, 10).
\<close>

theorem paintEvent_centre_counterexample:
  "rect_center (rect example_event) = (Finite 116, Finite 110)
   \<and> hd (transform_calls (snd (paintEvent draw_icon example_event init)))
       = Translate (Finite 16) (Finite 10)
   \<and> transform_calls (snd (paintEvent draw_icon example_event init))
       \<noteq> centred_transform example_event init"
  by (simp add: paintEvent_def QPainter_new_def call_def Let_def draw_icon_def
        transform_calls_def centred_transform_def rect_center_def example_event_def
        float_of_int_def)

subsection \<open>Getters and setters\<close>

text \<open>
  C7. Reading a property after setting it gives the value set: for brush, penStyle,
  penColor and rotation with any value, and for penWidth with any value that is not
  negative.
\<close>

theorem property_round_trip:
  "brush (brush_setter b s) = b
   \<and> penStyle (penStyle_setter st s) = st
   \<and> penColor (penColor_setter c s) = c
   \<and> rotation (rotation_setter a s) = a
   \<and> (float_le (Finite 0) w \<longrightarrow> penWidth (penWidth_setter to_int w s) = w)"
proof -
  have "penWidth (penWidth_setter to_int w s) = w" if "float_le (Finite 0) w"
  proof (cases "float_ne w (self_pen_width s)")
    case True
    with that show ?thesis
      by (simp add: penWidth_def penWidth_setter_def update_def float_of_int_def
            float_le_zero_not_lt Let_def)
  next
    case False
    then have "w = self_pen_width s" by (simp add: float_ne_def float_eq_same)
    with False that show ?thesis
      by (simp add: penWidth_def penWidth_setter_def)
  qed
  then show ?thesis
    by (simp add: brush_def brush_setter_def penStyle_def penStyle_setter_def
          penColor_def penColor_setter_def rotation_def rotation_setter_def
          update_def Let_def)
qed

theorem property_round_trip_witness:
  "float_le (Finite 0) (Finite (5 / 2))
   \<and> penWidth (penWidth_setter example_to_int (Finite (5 / 2)) init) = Finite (5 / 2)
   \<and> brush (brush_setter (QBrush (QColor 255 0 0) SolidPattern) init)
       = QBrush (QColor 255 0 0) SolidPattern"
proof -
  have h: "float_le (Finite 0) (Finite (5 / 2))" by (simp add: float_le_def)
  from property_round_trip
         [of "QBrush (QColor 255 0 0) SolidPattern" init SolidLine "QColor 0 0 0"
             "Finite 0" "Finite (5 / 2)" example_to_int] h
  show ?thesis by simp
qed

text \<open>
  C8. Assigning to a property a value that differs from the current one makes one
  repaint request: for brush, penStyle, penColor, and for penWidth when the value is not
  negative. The rotation setter makes one for every value.
\<close>

theorem property_change_requests_repaint:
  "(b \<noteq> brush s \<longrightarrow> update_calls (brush_setter b s) = Suc (update_calls s))
   \<and> (st \<noteq> penStyle s \<longrightarrow> update_calls (penStyle_setter st s) = Suc (update_calls s))
   \<and> (c \<noteq> penColor s \<longrightarrow> update_calls (penColor_setter c s) = Suc (update_calls s))
   \<and> (float_le (Finite 0) w \<and> float_ne w (penWidth s) \<longrightarrow>
        update_calls (penWidth_setter to_int w s) = Suc (update_calls s))
   \<and> update_calls (rotation_setter a s) = Suc (update_calls s)"
  by (simp add: brush_def brush_setter_def penStyle_def penStyle_setter_def
        penColor_def penColor_setter_def rotation_setter_def
        penWidth_def penWidth_setter_def update_def float_of_int_def
        float_le_zero_not_lt Let_def)

theorem property_change_requests_repaint_witness:
  "QBrush (QColor 255 0 0) SolidPattern \<noteq> brush init
   \<and> update_calls (brush_setter (QBrush (QColor 255 0 0) SolidPattern) init) = 1
   \<and> DotLine \<noteq> penStyle init
   \<and> update_calls (penStyle_setter DotLine init) = 1
   \<and> QColor 0 128 0 \<noteq> penColor init
   \<and> update_calls (penColor_setter (QColor 0 128 0) init) = 1
   \<and> float_le (Finite 0) (Finite 2) \<and> float_ne (Finite 2) (penWidth init)
   \<and> update_calls (penWidth_setter example_to_int (Finite 2) init) = 1
   \<and> update_calls (rotation_setter (Finite 90) init) = 1"
  using property_change_requests_repaint
    [of "QBrush (QColor 255 0 0) SolidPattern" init DotLine "QColor 0 128 0" "Finite 2"
        example_to_int "Finite 90"]
  by (simp add: init_fields brush_def penStyle_def penColor_def penWidth_def
        float_le_def float_ne_def)

subsection \<open>The width the pen carries\<close>

text \<open>
  C9. The constructor gives the pen the stored width through \<open>setWidthF\<close>. The setter
  of penWidth goes through the integer \<open>setWidth\<close>: a changed width reaches the pen as
  an integer. On an icon reached from the constructor by any operations, after penWidth
  is set to a value \<open>w\<close> that is not negative the getter gives \<open>w\<close> and the pen's width
  is an integer; so for \<open>w\<close> that is not an integer the pen's width differs from the
  value of the property.
\<close>

theorem penWidth_pen_integer_width:
  "widthF (self_pen init) = penWidth init
   \<and> (float_le (Finite 0) w \<and> float_ne w (penWidth s) \<longrightarrow>
        widthF (self_pen (penWidth_setter to_int w s)) = float_of_int (to_int w))
   \<and> (float_le (Finite 0) w \<longrightarrow>
        penWidth (penWidth_setter to_int w (icon_run to_int ops init)) = w
        \<and> float_is_integer
            (widthF (self_pen (penWidth_setter to_int w (icon_run to_int ops init)))))
   \<and> (float_le (Finite 0) w \<and> \<not> float_is_integer w \<longrightarrow>
        widthF (self_pen (penWidth_setter to_int w (icon_run to_int ops init)))
          \<noteq> penWidth (penWidth_setter to_int w (icon_run to_int ops init)))"
proof -
  let ?r = "icon_run to_int ops init"
  have integral: "float_is_integer (widthF (self_pen (penWidth_setter to_int w ?r)))"
    by (rule penWidth_setter_pen_integral, rule run_pen_integral) (simp add: init_fields)
  have getter: "penWidth (penWidth_setter to_int w ?r) = w" if "float_le (Finite 0) w"
  proof (cases "float_ne w (self_pen_width ?r)")
    case True
    with that show ?thesis
      by (simp add: penWidth_def penWidth_setter_def update_def float_of_int_def
            float_le_zero_not_lt Let_def)
  next
    case False
    then have "w = self_pen_width ?r" by (simp add: float_ne_def float_eq_same)
    with False that show ?thesis
      by (simp add: penWidth_def penWidth_setter_def)
  qed
  have fresh: "float_le (Finite 0) w \<and> float_ne w (penWidth s) \<Longrightarrow>
      widthF (self_pen (penWidth_setter to_int w s)) = float_of_int (to_int w)"
    by (simp add: penWidth_def penWidth_setter_def update_def setWidth_def
          float_of_int_def float_le_zero_not_lt Let_def)
  have start: "widthF (self_pen init) = penWidth init"
    by (simp add: init_fields penWidth_def)
  from integral getter fresh start show ?thesis by metis
qed

theorem penWidth_pen_integer_width_witness:
  "float_le (Finite 0) (Finite (5 / 2)) \<and> \<not> float_is_integer (Finite (5 / 2))
   \<and> penWidth (penWidth_setter example_to_int (Finite (5 / 2)) init) = Finite (5 / 2)
   \<and> widthF (self_pen (penWidth_setter example_to_int (Finite (5 / 2)) init)) = Finite 2"
proof -
  have h: "float_le (Finite 0) (Finite (5 / 2))" by (simp add: float_le_def)
  have d: "float_ne (Finite (5 / 2)) (penWidth init)"
    by (simp add: penWidth_def init_fields float_ne_def)
  from penWidth_pen_integer_width [of "Finite (5 / 2)" init example_to_int "[]"]
       five_halves_not_integer h d
  have "penWidth (penWidth_setter example_to_int (Finite (5 / 2)) init) = Finite (5 / 2)
        \<and> widthF (self_pen (penWidth_setter example_to_int (Finite (5 / 2)) init))
            = float_of_int (example_to_int (Finite (5 / 2)))"
    by simp
  with five_halves_not_integer h show ?thesis by (simp add: float_of_int_def)
qed

section \<open>Facts about the symbols\<close>

subsection \<open>The interlock\<close>

text \<open>
  C1. \<open>interlock_value_changed\<close> of PneumaticValve and of FastShutter first runs the
  inherited method of the mixin and then sets the controls frame: for every value and
  whatever the inherited method does, the frame ends enabled exactly when the
  \<open>_interlocked\<close> that the inherited method left is false as a truth value (that is, 0),
  the method changes nothing else of what the inherited method left, and so the frame is
  enabled exactly when the widget is not interlocked.
\<close>

theorem interlock_disables_controls:
  "PneumaticValve_interlock_value_changed mixin v s
     = (mixin v s)\<lparr>controls_frame_enabled := (self_interlocked (mixin v s) = 0)\<rparr>
   \<and> FastShutter_interlock_value_changed mixin v s
     = (mixin v s)\<lparr>controls_frame_enabled := (self_interlocked (mixin v s) = 0)\<rparr>
   \<and> controls_frame_enabled (PneumaticValve_interlock_value_changed mixin v s)
     = (\<not> truth_int (self_interlocked (mixin v s)))
   \<and> controls_frame_enabled (FastShutter_interlock_value_changed mixin v s)
     = (\<not> truth_int (self_interlocked (mixin v s)))
   \<and> self_interlocked (PneumaticValve_interlock_value_changed mixin v s)
     = self_interlocked (mixin v s)
   \<and> self_interlocked (FastShutter_interlock_value_changed mixin v s)
     = self_interlocked (mixin v s)
   \<and> controls_frame_enabled (PneumaticValve_interlock_value_changed mixin v s)
     = (\<not> truth_int (self_interlocked (PneumaticValve_interlock_value_changed mixin v s)))
   \<and> controls_frame_enabled (FastShutter_interlock_value_changed mixin v s)
     = (\<not> truth_int (self_interlocked (FastShutter_interlock_value_changed mixin v s)))"
  by (simp add: PneumaticValve_interlock_value_changed_def
        FastShutter_interlock_value_changed_def truth_int_def Let_def)

text \<open>
  With a mixin that stores the channel's value, the value 1 disables the controls of a
  widget whose controls were enabled, and the value 0 enables those of one whose controls
  were disabled.
\<close>

theorem interlock_disables_controls_witness:
  "controls_frame_enabled example_symbol
   \<and> \<not> controls_frame_enabled
        (PneumaticValve_interlock_value_changed store_interlock 1 example_symbol)
   \<and> \<not> controls_frame_enabled
        (FastShutter_interlock_value_changed store_interlock 1 example_symbol)
   \<and> controls_frame_enabled
        (PneumaticValve_interlock_value_changed store_interlock 0
           (example_symbol\<lparr>controls_frame_enabled := False\<rparr>))
   \<and> controls_frame_enabled
        (FastShutter_interlock_value_changed store_interlock 0
           (example_symbol\<lparr>controls_frame_enabled := False\<rparr>))"
  using interlock_disables_controls [of store_interlock 1 example_symbol]
        interlock_disables_controls
          [of store_interlock 0 "example_symbol\<lparr>controls_frame_enabled := False\<rparr>"]
  by (simp add: store_interlock_def example_symbol_def)

subsection \<open>The layout\<close>

text \<open>
  C5. \<open>assemble_layout\<close> of PneumaticValve and of FastShutter first runs the inherited
  method and then reads controlsLocation. Whatever the inherited method does, the
  open/close button ends horizontal with minimum size (100, 40) when the location read is
  Top or Bottom, and vertical with minimum size (100, 80) for every other location; the
  method itself leaves the location as read, and changes nothing but the button.
\<close>

theorem assemble_layout_button:
  "(orientation (open_close_btn (PneumaticValve_assemble_layout base s)),
    minimumSize (open_close_btn (PneumaticValve_assemble_layout base s)))
     = (if controlsLocation (base s) = Top \<or> controlsLocation (base s) = Bottom
        then (Horizontal, (100, 40)) else (Vertical, (100, 80)))
   \<and> (orientation (open_close_btn (FastShutter_assemble_layout base s)),
       minimumSize (open_close_btn (FastShutter_assemble_layout base s)))
     = (if controlsLocation (base s) = Top \<or> controlsLocation (base s) = Bottom
        then (Horizontal, (100, 40)) else (Vertical, (100, 80)))
   \<and> controlsLocation (PneumaticValve_assemble_layout base s) = controlsLocation (base s)
   \<and> controlsLocation (FastShutter_assemble_layout base s) = controlsLocation (base s)
   \<and> PneumaticValve_assemble_layout base s
     = (base s)\<lparr>open_close_btn := open_close_btn (PneumaticValve_assemble_layout base s)\<rparr>
   \<and> FastShutter_assemble_layout base s
     = (base s)\<lparr>open_close_btn := open_close_btn (FastShutter_assemble_layout base s)\<rparr>
   \<and> channel (open_close_btn (PneumaticValve_assemble_layout base s))
     = channel (open_close_btn (base s))
   \<and> channel (open_close_btn (FastShutter_assemble_layout base s))
     = channel (open_close_btn (base s))
   \<and> (orientation (open_close_btn (PneumaticValve_assemble_layout base s)),
       minimumSize (open_close_btn (PneumaticValve_assemble_layout base s)))
     = (if controlsLocation (PneumaticValve_assemble_layout base s) = Top
           \<or> controlsLocation (PneumaticValve_assemble_layout base s) = Bottom
        then (Horizontal, (100, 40)) else (Vertical, (100, 80)))
   \<and> (orientation (open_close_btn (FastShutter_assemble_layout base s)),
       minimumSize (open_close_btn (FastShutter_assemble_layout base s)))
     = (if controlsLocation (FastShutter_assemble_layout base s) = Top
           \<or> controlsLocation (FastShutter_assemble_layout base s) = Bottom
        then (Horizontal, (100, 40)) else (Vertical, (100, 80)))"
  by (simp add: PneumaticValve_assemble_layout_def FastShutter_assemble_layout_def
        controlsLocation_def setMinimumSize_def Let_def)

text \<open>
  Each of Top, Bottom and another location, set on a widget whose button was laid out
  the other way, with an inherited method that changes nothing.
\<close>

theorem assemble_layout_button_witness:
  "open_close_btn (PneumaticValve_assemble_layout (\<lambda>s. s)
       (example_symbol\<lparr>self_controls_location := Top\<rparr>))
     = \<lparr>orientation = Horizontal, minimumSize = (100, 40), channel = None\<rparr>
   \<and> open_close_btn (FastShutter_assemble_layout (\<lambda>s. s)
       (example_symbol\<lparr>self_controls_location := Bottom\<rparr>))
     = \<lparr>orientation = Horizontal, minimumSize = (100, 40), channel = None\<rparr>
   \<and> open_close_btn (PneumaticValve_assemble_layout (\<lambda>s. s)
       (example_symbol\<lparr>self_controls_location := OtherLocation 3,
          open_close_btn := \<lparr>orientation = Horizontal, minimumSize = (100, 40),
                              channel = None\<rparr>\<rparr>))
     = \<lparr>orientation = Vertical, minimumSize = (100, 80), channel = None\<rparr>
   \<and> open_close_btn (FastShutter_assemble_layout (\<lambda>s. s)
       (example_symbol\<lparr>self_controls_location := OtherLocation 3,
          open_close_btn := \<lparr>orientation = Horizontal, minimumSize = (100, 40),
                              channel = None\<rparr>\<rparr>))
     = \<lparr>orientation = Vertical, minimumSize = (100, 80), channel = None\<rparr>"
proof -
  let ?top = "example_symbol\<lparr>self_controls_location := Top\<rparr>"
  let ?bottom = "example_symbol\<lparr>self_controls_location := Bottom\<rparr>"
  let ?other = "example_symbol\<lparr>self_controls_location := OtherLocation 3,
      open_close_btn := \<lparr>orientation = Horizontal, minimumSize = (100, 40),
                          channel = None\<rparr>\<rparr>"
  have eq: "b = \<lparr>orientation = orientation b, minimumSize = minimumSize b,
                 channel = channel b\<rparr>" for b :: PyDMEnumButton
    by simp
  from assemble_layout_button [of "\<lambda>s. s" ?top]
  have a: "open_close_btn (PneumaticValve_assemble_layout (\<lambda>s. s) ?top)
             = \<lparr>orientation = Horizontal, minimumSize = (100, 40), channel = None\<rparr>"
    by (subst eq) (simp add: controlsLocation_def example_symbol_def)
  from assemble_layout_button [of "\<lambda>s. s" ?bottom]
  have b: "open_close_btn (FastShutter_assemble_layout (\<lambda>s. s) ?bottom)
             = \<lparr>orientation = Horizontal, minimumSize = (100, 40), channel = None\<rparr>"
    by (subst eq) (simp add: controlsLocation_def example_symbol_def)
  from assemble_layout_button [of "\<lambda>s. s" ?other]
  have c: "open_close_btn (PneumaticValve_assemble_layout (\<lambda>s. s) ?other)
             = \<lparr>orientation = Vertical, minimumSize = (100, 80), channel = None\<rparr>"
    by (subst eq) (simp add: controlsLocation_def example_symbol_def)
  from assemble_layout_button [of "\<lambda>s. s" ?other]
  have d: "open_close_btn (FastShutter_assemble_layout (\<lambda>s. s) ?other)
             = \<lparr>orientation = Vertical, minimumSize = (100, 80), channel = None\<rparr>"
    by (subst eq) (simp add: controlsLocation_def example_symbol_def)
  from a b c d show ?thesis by simp
qed

subsection \<open>The channels\<close>

text \<open>
  C6. PneumaticValve passes the suffixes \<open>:OPN_OK\<close> (interlock), \<open>:STATE\<close> (error),
  \<open>:OPN_DI\<close> (open state) and \<open>:CLS_DI\<close> (close state) to the constructor it inherits.
  When the channels prefix, as \<open>create_channels\<close> reads it after the inherited method,
  is a non-empty string, the button's channel becomes that prefix followed by
  \<open>:OPN_SW\<close>. \<open>destroy_channels\<close> sets the button's channel to \<open>None\<close>.
\<close>

theorem PneumaticValve_channels:
  "interlock_suffix PneumaticValve_init_kwargs = '':OPN_OK''
   \<and> error_suffix PneumaticValve_init_kwargs = '':STATE''
   \<and> open_suffix PneumaticValve_init_kwargs = '':OPN_DI''
   \<and> close_suffix PneumaticValve_init_kwargs = '':CLS_DI''
   \<and> (self_channels_prefix (base s) = Some p \<and> p \<noteq> [] \<longrightarrow>
        channel (open_close_btn (PneumaticValve_create_channels base s))
          = Some (p @ '':OPN_SW'')
        \<and> self_channels_prefix (PneumaticValve_create_channels base s) = Some p)
   \<and> channel (open_close_btn (PneumaticValve_destroy_channels base_destroy s)) = None"
  by (simp add: PneumaticValve_init_kwargs_def PneumaticValve_interlock_suffix_def
        PneumaticValve_error_suffix_def PneumaticValve_open_state_suffix_def
        PneumaticValve_close_state_suffix_def PneumaticValve_create_channels_def
        PneumaticValve_destroy_channels_def truth_str_def format2_def Let_def)

theorem PneumaticValve_channels_witness:
  "self_channels_prefix example_symbol = Some ''VGC:1'' \<and> ''VGC:1'' \<noteq> []
   \<and> channel (open_close_btn (PneumaticValve_create_channels (\<lambda>s. s) example_symbol))
       = Some ''VGC:1:OPN_SW''
   \<and> channel (open_close_btn (PneumaticValve_destroy_channels (\<lambda>s. s) example_symbol))
       = None"
  using PneumaticValve_channels [of "\<lambda>s. s" example_symbol "''VGC:1''" "\<lambda>s. s"]
  by (simp add: example_symbol_def)

text \<open>
  C10. FastShutter passes \<open>:ERROR\<close> as the suffix of its error channel: not the
  \<open>:STATE\<close> of PneumaticValve, and not one of the suffixes the specification
  enumerates. Its interlock, open state and close state suffixes are those of
  PneumaticValve, and its \<open>create_channels\<close> gives the button the prefix followed by
  \<open>:OPN_SW\<close>, as PneumaticValve does.
\<close>

theorem FastShutter_channels:
  "error_suffix FastShutter_init_kwargs = '':ERROR''
   \<and> error_suffix FastShutter_init_kwargs \<noteq> error_suffix PneumaticValve_init_kwargs
   \<and> error_suffix FastShutter_init_kwargs \<notin> set spec_channel_suffixes
   \<and> interlock_suffix FastShutter_init_kwargs = '':OPN_OK''
   \<and> open_suffix FastShutter_init_kwargs = '':OPN_DI''
   \<and> close_suffix FastShutter_init_kwargs = '':CLS_DI''
   \<and> interlock_suffix FastShutter_init_kwargs = interlock_suffix PneumaticValve_init_kwargs
   \<and> open_suffix FastShutter_init_kwargs = open_suffix PneumaticValve_init_kwargs
   \<and> close_suffix FastShutter_init_kwargs = close_suffix PneumaticValve_init_kwargs
   \<and> (self_channels_prefix (base s) = Some p \<and> p \<noteq> [] \<longrightarrow>
        channel (open_close_btn (FastShutter_create_channels base s))
          = Some (p @ '':OPN_SW''))
   \<and> FastShutter_create_channels base s = PneumaticValve_create_channels base s"
  by (simp add: FastShutter_init_kwargs_def FastShutter_interlock_suffix_def
        FastShutter_error_suffix_def FastShutter_open_state_suffix_def
        FastShutter_close_state_suffix_def PneumaticValve_init_kwargs_def
        PneumaticValve_interlock_suffix_def PneumaticValve_error_suffix_def
        PneumaticValve_open_state_suffix_def PneumaticValve_close_state_suffix_def
        spec_channel_suffixes_def FastShutter_create_channels_def
        PneumaticValve_create_channels_def truth_str_def format2_def Let_def)

theorem FastShutter_channels_witness:
  "self_channels_prefix example_symbol = Some ''VGC:1'' \<and> ''VGC:1'' \<noteq> []
   \<and> channel (open_close_btn (FastShutter_create_channels (\<lambda>s. s) example_symbol))
       = Some ''VGC:1:OPN_SW''"
proof -
  have pre: "self_channels_prefix ((\<lambda>s. s) example_symbol) = Some ''VGC:1'' \<and> ''VGC:1'' \<noteq> []"
    by (simp add: example_symbol_def)
  from FastShutter_channels [of "\<lambda>s. s" example_symbol "''VGC:1''"]
  have step: "self_channels_prefix ((\<lambda>s. s) example_symbol) = Some ''VGC:1'' \<and> ''VGC:1'' \<noteq> []
      \<longrightarrow> channel (open_close_btn (FastShutter_create_channels (\<lambda>s. s) example_symbol))
            = Some (''VGC:1'' @ '':OPN_SW'')"
    by (elim conjE)
  from step pre
  have "channel (open_close_btn (FastShutter_create_channels (\<lambda>s. s) example_symbol))
          = Some (''VGC:1'' @ '':OPN_SW'')"
    by (rule mp)
  with pre show ?thesis by simp
qed

end
